theory Spec2Isabelle
  imports Main "HOL-Library.Word" "HOL-Library.AList" "HOL-Library.Multiset"
begin

section \<open>The validator state machine (consensus/dpor/backend/pbft\_fsm.go)\<close>

text \<open>
  The embedding describes what each operation of \<open>DporSm\<close> computes when the machine is
  driven by one thread, one call after the other, as it is designed to be.

  A Go panic (nil dereference, index out of range, failed type assertion) ends the
  operation; it is the value \<open>Panics\<close>, and no state is returned with it. A call that
  waits for a mutex that nothing will release never returns; it is the value \<open>Blocks\<close>.

  The mutex \<open>sm.lock\<close> is a \<open>sync.RWMutex\<close>, which is not reentrant. Every operation
  releases with \<open>defer\<close> what it has taken, so between two calls of the driver the mutex
  is free; it is therefore no field of the model's state. An operation that takes the
  free mutex and calls nothing that takes it again is written without it: the lock is
  granted and released at the return. Where an operation calls
  \<open>refreshWhenNewerHeight\<close>, which takes the write lock itself, the state of the mutex at
  that call is passed to it. The second mutex, \<open>stateLock\<close>, is taken by \<open>State\<close> and
  \<open>SetState\<close> alone, never nested, and is left out.
\<close>

subsection \<open>Data\<close>

type_synonym address = nat
type_synonym hash = nat
type_synonym uint64 = "64 word"

text \<open>A \<open>types.DporSignature\<close> is an array of 65 bytes; it is empty when every byte is 0.\<close>

type_synonym dporSignature = "8 word list"

definition IsEmpty :: "dporSignature \<Rightarrow> bool" where
  "IsEmpty s = list_all (\<lambda>b. b = 0) s"

datatype action = noAction | broadcastMsgAction | insertBlockAction | broadcastAndInsertBlockAction

datatype dataType = noType | headerType | blockType | impeachBlockType

datatype msgCode =
    noMsgCode | preprepareMsgCode | prepareMsgCode | commitMsgCode | validateMsgCode
  | impeachPreprepareMsgCode | impeachPrepareMsgCode | impeachCommitMsgCode
  | impeachValidateMsgCode

text \<open>\<open>consensus.State\<close>, with the five values the state machine switches on.\<close>

datatype State = Idle | Preprepared | Prepared | ImpeachPreprepared | ImpeachPrepared

datatype error =
    errBlockTooOld | errFsmWrongDataType | errFsmFaultyBlock | errFsmWrongIdleIpunt
  | errFsmWrongPrepreparedInput | errFsmWrongPreparedInput
  | errFsmWrongImpeachPrepreparedInput | errFsmWrongImpeachPreparedInput
  | errBlockNotExist
  | ErrInvalidSigners
  | ServiceError nat

datatype panic = NilDereference | IndexOutOfRange | TypeAssertion | InvalidArgument

datatype 'a outcome = Panics panic | Blocks | Returns 'a

definition bindO :: "'a outcome \<Rightarrow> ('a \<Rightarrow> 'b outcome) \<Rightarrow> 'b outcome" where
  "bindO m k = (case m of Panics p \<Rightarrow> Panics p | Blocks \<Rightarrow> Blocks | Returns x \<Rightarrow> k x)"

text \<open>The state of \<open>sm.lock\<close> as a call finds it, and \<open>Lock\<close>: the write lock is granted
  on the free mutex only; on a mutex that the calling thread itself holds, the call
  waits forever.\<close>

datatype rwmutex = Unlocked | ReadLocked | WriteLocked

definition Lock :: "rwmutex \<Rightarrow> rwmutex outcome" where
  "Lock m = (case m of Unlocked \<Rightarrow> Returns WriteLocked | _ \<Rightarrow> Blocks)"

text \<open>
  Modelled from the spec: \<open>types.Header\<close> and \<open>types.Block\<close> are declared outside the
  files at hand. A header carries its height, its hash (the digest that \<open>h.Hash()\<close>
  returns, which leaves the signature slots out), the ordered validators and the
  parallel signature slots. A block is a header and an opaque payload.
\<close>

record header =
  Number :: uint64
  Hash :: hash
  Validators :: "address list"
  Sigs :: "dporSignature list"

record block =
  Header :: header
  Payload :: nat

text \<open>\<open>blockSigItem\<close> and \<open>sigState\<close>: a Go map from address to a pointer to an item. The
  association list keeps one entry per key (\<open>AList.update\<close>); a key that is absent reads
  as the nil pointer.\<close>

record blockSigItem =
  hash :: hash
  sig :: dporSignature

type_synonym sigState = "(address \<times> blockSigItem) list"

text \<open>A value of the empty interface: nil, or a pointer (possibly nil) to a header or to a
  block.\<close>

datatype iface = Nil | HeaderPtr "header option" | BlockPtr "block option"

text \<open>
  \<open>DporService\<close> is an interface implemented outside this package; its methods are
  parameters. \<open>'svc\<close> is the state the service keeps (its signature caches). The last
  field is the \<open>Add\<close> of the ARC cache library, whose replacement policy is likewise a
  parameter.
\<close>

record 'svc DporService =
  ValidateBlock :: "'svc \<Rightarrow> block option \<Rightarrow> error option"
  EcrecoverSigs :: "'svc \<Rightarrow> header \<Rightarrow> State \<Rightarrow> error + (address list \<times> dporSignature list)"
  ValidatorsOf :: "'svc \<Rightarrow> uint64 \<Rightarrow> address list"
  SignHeader :: "'svc \<Rightarrow> header \<Rightarrow> State \<Rightarrow> header \<times> 'svc"
  UpdatePrepareSigsCache :: "address \<Rightarrow> hash \<Rightarrow> dporSignature \<Rightarrow> 'svc \<Rightarrow> 'svc"
  UpdateFinalSigsCache :: "address \<Rightarrow> hash \<Rightarrow> dporSignature \<Rightarrow> 'svc \<Rightarrow> 'svc"
  CreateImpeachBlock :: "'svc \<Rightarrow> error + block"
  bcacheAdd :: "hash \<Rightarrow> block \<Rightarrow> (hash \<times> block) list \<Rightarrow> (hash \<times> block) list"

record 'svc DporSm =
  state :: State
  service :: 'svc
  prepareSigState :: sigState
  commitSigState :: sigState
  f :: uint64
  bcache :: "(hash \<times> block) list"
  lastHeight :: uint64

definition NewDporSm :: "'svc \<Rightarrow> uint64 \<Rightarrow> 'svc DporSm" where
  "NewDporSm svc f0 =
     \<lparr>state = Idle, service = svc, prepareSigState = [], commitSigState = [],
      f = f0, bcache = [], lastHeight = 0\<rparr>"

subsection \<open>Operations\<close>

text \<open>\<open>refreshWhenNewerHeight\<close> starts with \<open>sm.lock.Lock()\<close>; its first argument is the
  state of the mutex at the call.\<close>

definition refreshWhenNewerHeight ::
  "rwmutex \<Rightarrow> uint64 \<Rightarrow> 'svc DporSm \<Rightarrow> 'svc DporSm outcome" where
  "refreshWhenNewerHeight m height sm =
     bindO (Lock m) (\<lambda>held.
       Returns (if height > lastHeight sm
                then sm\<lparr>lastHeight := height, prepareSigState := [], commitSigState := []\<rparr>
                else sm))"

definition verifyBlock :: "'svc DporService \<Rightarrow> 'svc DporSm \<Rightarrow> block option \<Rightarrow> bool" where
  "verifyBlock env sm b = (ValidateBlock env (service sm) b = None)"

text \<open>The counting loop of both certificates: the entries whose hash is the queried one,
  counted in a \<open>uint64\<close>.\<close>

definition countHash :: "hash \<Rightarrow> sigState \<Rightarrow> uint64" where
  "countHash hs st = word_of_nat (length (filter (\<lambda>kv. hash (snd kv) = hs) st))"

definition commitCertificate :: "'svc DporSm \<Rightarrow> header option \<Rightarrow> bool outcome" where
  "commitCertificate sm h =
     (case h of
        None \<Rightarrow> Panics NilDereference
      | Some hdr \<Rightarrow> Returns (countHash (Hash hdr) (commitSigState sm) \<ge> 2 * f sm + 1))"

definition prepareCertificate :: "'svc DporSm \<Rightarrow> header option \<Rightarrow> bool outcome" where
  "prepareCertificate sm h =
     (case h of
        None \<Rightarrow> Panics NilDereference
      | Some hdr \<Rightarrow> Returns (countHash (Hash hdr) (prepareSigState sm) \<ge> 2 * f sm + 1))"

text \<open>The loop of \<open>composeValidateMsg\<close> over \<open>validators\<close>, from index \<open>i\<close> on, acting on
  the signature slots of the cached block.\<close>

fun fillSigs :: "hash \<Rightarrow> sigState \<Rightarrow> address list \<Rightarrow> nat \<Rightarrow> dporSignature list
    \<Rightarrow> dporSignature list outcome" where
  "fillSigs hs cs [] i sigs = Returns sigs"
| "fillSigs hs cs (v # vs) i sigs =
     (if i \<ge> length sigs then Panics IndexOutOfRange
      else if IsEmpty (sigs ! i) then
        (case map_of cs v of
           None \<Rightarrow> Panics NilDereference
         | Some st \<Rightarrow>
             fillSigs hs cs vs (Suc i) (if hash st = hs then sigs[i := sig st] else sigs))
      else fillSigs hs cs vs (Suc i) sigs)"

text \<open>The block is changed through the pointer the cache holds, so the cache entry
  changes with it.\<close>

definition composeValidateMsg ::
  "'svc DporSm \<Rightarrow> header option \<Rightarrow> (block option \<times> error option \<times> 'svc DporSm) outcome" where
  "composeValidateMsg sm h =
     (case h of
        None \<Rightarrow> Panics NilDereference
      | Some hdr \<Rightarrow>
          (case map_of (bcache sm) (Hash hdr) of
             None \<Rightarrow> Returns (None, Some errBlockNotExist, sm)
           | Some theBlock \<Rightarrow>
               bindO (fillSigs (Hash hdr) (commitSigState sm) (Validators hdr) 0
                        (Sigs (Header theBlock)))
                 (\<lambda>sigs'.
                    let b' = theBlock\<lparr>Header := (Header theBlock)\<lparr>Sigs := sigs'\<rparr>\<rparr>
                    in Returns (Some b', None,
                                sm\<lparr>bcache := AList.update (Hash hdr) b' (bcache sm)\<rparr>))))"

definition isValidator :: "address list \<Rightarrow> address \<Rightarrow> bool" where
  "isValidator validators s = list_ex (\<lambda>v. s = v) validators"

text \<open>The merge loop of the sig-plus operations: \<open>sigs[i]\<close> for the i-th signer.\<close>

fun mergeSigs :: "hash \<Rightarrow> address list \<Rightarrow> dporSignature list \<Rightarrow> sigState \<Rightarrow> sigState outcome" where
  "mergeSigs hs [] sigs st = Returns st"
| "mergeSigs hs (s # ss) [] st = Panics IndexOutOfRange"
| "mergeSigs hs (s # ss) (g # gs) st =
     mergeSigs hs ss gs (AList.update s \<lparr>hash = hs, sig = g\<rparr> st)"

text \<open>Both sig-plus operations take the write lock, keep it to their return, and call
  \<open>refreshWhenNewerHeight\<close> while they hold it.\<close>

definition commitMsgPlus ::
  "'svc DporService \<Rightarrow> 'svc DporSm \<Rightarrow> header option \<Rightarrow> (error option \<times> 'svc DporSm) outcome" where
  "commitMsgPlus env sm h =
     bindO (Lock Unlocked) (\<lambda>held.
       case h of
         None \<Rightarrow> Panics NilDereference
       | Some hdr \<Rightarrow>
           bindO (refreshWhenNewerHeight held (Number hdr) sm) (\<lambda>sm1.
             case EcrecoverSigs env (service sm1) hdr Prepared of
               Inl err \<Rightarrow> Returns (Some err, sm1)
             | Inr (signers, sigs) \<Rightarrow>
                 (let validators = ValidatorsOf env (service sm1) (Number hdr) in
                  if \<not> list_all (isValidator validators) signers
                  then Returns (Some ErrInvalidSigners, sm1)
                  else bindO (mergeSigs (Hash hdr) signers sigs (commitSigState sm1))
                         (\<lambda>st. Returns (None, sm1\<lparr>commitSigState := st\<rparr>)))))"

definition prepareMsgPlus ::
  "'svc DporService \<Rightarrow> 'svc DporSm \<Rightarrow> header option \<Rightarrow> (error option \<times> 'svc DporSm) outcome" where
  "prepareMsgPlus env sm h =
     bindO (Lock Unlocked) (\<lambda>held.
       case h of
         None \<Rightarrow> Panics NilDereference
       | Some hdr \<Rightarrow>
           bindO (refreshWhenNewerHeight held (Number hdr) sm) (\<lambda>sm1.
             case EcrecoverSigs env (service sm1) hdr Prepared of
               Inl err \<Rightarrow> Returns (Some err, sm1)
             | Inr (signers, sigs) \<Rightarrow>
                 (let validators = ValidatorsOf env (service sm1) (Number hdr) in
                  if \<not> list_all (isValidator validators) signers
                  then Returns (Some ErrInvalidSigners, sm1)
                  else bindO (mergeSigs (Hash hdr) signers sigs (prepareSigState sm1))
                         (\<lambda>st. Returns (None, sm1\<lparr>prepareSigState := st\<rparr>)))))"

text \<open>The compose operations take no lock themselves, so \<open>refreshWhenNewerHeight\<close> finds
  the mutex free. Go ranges over the map in no fixed order; the model forwards the entries in the
  order of the association list.\<close>

definition composeCommitMsg ::
  "'svc DporService \<Rightarrow> 'svc DporSm \<Rightarrow> header option
    \<Rightarrow> (header option \<times> error option \<times> 'svc DporSm) outcome" where
  "composeCommitMsg env sm h =
     (case h of
        None \<Rightarrow> Panics NilDereference
      | Some hdr \<Rightarrow>
          if lastHeight sm > Number hdr then Returns (None, Some errBlockTooOld, sm)
          else
            bindO (refreshWhenNewerHeight Unlocked (Number hdr) sm) (\<lambda>sm1.
              let svc1 = fold (\<lambda>kv. UpdateFinalSigsCache env (fst kv) (hash (snd kv)) (sig (snd kv)))
                           (commitSigState sm1) (service sm1);
                  signed = SignHeader env svc1 hdr Prepared
              in Returns (Some (fst signed), None, sm1\<lparr>service := snd signed\<rparr>)))"

text \<open>\<open>SignHeader\<close> writes into the header of the block that was just put into the cache,
  so the cache holds the signed block; the header returned is a copy of it.\<close>

definition composePrepareMsg ::
  "'svc DporService \<Rightarrow> 'svc DporSm \<Rightarrow> block option
    \<Rightarrow> (header option \<times> error option \<times> 'svc DporSm) outcome" where
  "composePrepareMsg env sm b =
     (case b of
        None \<Rightarrow> Panics NilDereference
      | Some blk \<Rightarrow>
          if lastHeight sm \<ge> Number (Header blk) then Returns (None, Some errBlockTooOld, sm)
          else
            bindO (refreshWhenNewerHeight Unlocked (Number (Header blk)) sm) (\<lambda>sm1.
              let svc1 = fold (\<lambda>kv. UpdatePrepareSigsCache env (fst kv) (hash (snd kv)) (sig (snd kv)))
                           (prepareSigState sm1) (service sm1);
                  signed = SignHeader env svc1 (Header blk) Preprepared;
                  blk' = blk\<lparr>Header := fst signed\<rparr>
              in Returns (Some (fst signed), None,
                          sm1\<lparr>service := snd signed,
                              bcache := bcacheAdd env (Hash (Header blk)) blk' (bcache sm1)\<rparr>)))"

definition proposeImpeachBlock ::
  "'svc DporService \<Rightarrow> 'svc DporSm \<Rightarrow> block option \<times> 'svc DporSm" where
  "proposeImpeachBlock env sm =
     (case CreateImpeachBlock env (service sm) of
        Inl e \<Rightarrow> (None, sm)
      | Inr b \<Rightarrow>
          (let signed = SignHeader env (service sm) (Header b) Preprepared
           in (Some (b\<lparr>Header := fst signed\<rparr>), sm\<lparr>service := snd signed\<rparr>)))"

definition impeachCommitCertificate :: "'svc DporSm \<Rightarrow> header option \<Rightarrow> bool outcome" where
  "impeachCommitCertificate sm h = commitCertificate sm h"

definition composeImpeachValidateMsg ::
  "'svc DporSm \<Rightarrow> header option \<Rightarrow> (block option \<times> error option \<times> 'svc DporSm) outcome" where
  "composeImpeachValidateMsg sm h = composeValidateMsg sm h"

definition impeachCommitMsgPlus ::
  "'svc DporService \<Rightarrow> 'svc DporSm \<Rightarrow> header option \<Rightarrow> (error option \<times> 'svc DporSm) outcome" where
  "impeachCommitMsgPlus env sm h = commitMsgPlus env sm h"

definition impeachPrepareCertificate :: "'svc DporSm \<Rightarrow> header option \<Rightarrow> bool outcome" where
  "impeachPrepareCertificate sm h = prepareCertificate sm h"

definition impeachPrepareMsgPlus ::
  "'svc DporService \<Rightarrow> 'svc DporSm \<Rightarrow> header option \<Rightarrow> (error option \<times> 'svc DporSm) outcome" where
  "impeachPrepareMsgPlus env sm h = prepareMsgPlus env sm h"


subsection \<open>The transition function\<close>

text \<open>What \<open>fsm\<close> returns: output, action, output type, message code, next state and
  error, together with the machine after the call.\<close>

type_synonym 'svc fsmResult =
  "iface \<times> action \<times> dataType \<times> msgCode \<times> State \<times> error option \<times> 'svc DporSm"

text \<open>The type assertions \<open>input.(*types.Header)\<close> and \<open>input.(*types.Block)\<close>.\<close>

definition assertHeader :: "iface \<Rightarrow> header option outcome" where
  "assertHeader input = (case input of HeaderPtr p \<Rightarrow> Returns p | _ \<Rightarrow> Panics TypeAssertion)"

definition assertBlock :: "iface \<Rightarrow> block option outcome" where
  "assertBlock input = (case input of BlockPtr p \<Rightarrow> Returns p | _ \<Rightarrow> Panics TypeAssertion)"

text \<open>The body of \<open>fsm\<close> is one \<open>switch state\<close> of five cases, each a \<open>switch msg\<close>; the
  five cases are the next five definitions, in the order of the source. A \<open>default\<close> case
  sets \<open>err\<close> and leaves the switch for the last \<open>return\<close> of the function.\<close>

definition fsm_Idle ::
  "'svc DporService \<Rightarrow> 'svc DporSm \<Rightarrow> iface \<Rightarrow> header option \<Rightarrow> block option \<Rightarrow> msgCode
    \<Rightarrow> 'svc fsmResult outcome" where
  "fsm_Idle env sm input inputHeader inputBlock msg =
     (case msg of
        validateMsgCode \<Rightarrow> Returns (BlockPtr inputBlock, insertBlockAction, blockType, noMsgCode, Idle, None, sm)
      | commitMsgCode \<Rightarrow>
           bindO (commitCertificate sm inputHeader) (\<lambda>cert.
             if cert then
               bindO (composeValidateMsg sm inputHeader) (\<lambda>(b, err, sm1).
                 case err of
                   Some e \<Rightarrow> Returns (Nil, noAction, noType, noMsgCode, Idle, Some e, sm1)
                 | None \<Rightarrow> Returns (BlockPtr b, broadcastAndInsertBlockAction, blockType, validateMsgCode, Idle, None, sm1))
             else
               bindO (commitMsgPlus env sm inputHeader) (\<lambda>(err, sm1).
                 case err of
                   Some e \<Rightarrow> Returns (Nil, noAction, noType, noMsgCode, Idle, Some e, sm1)
                 | None \<Rightarrow> Returns (input, noAction, noType, noMsgCode, Idle, None, sm1)))
      | prepareMsgCode \<Rightarrow>
           bindO (prepareCertificate sm inputHeader) (\<lambda>cert.
             if cert then
               bindO (composeCommitMsg env sm inputHeader) (\<lambda>(ret, err, sm1).
                 case err of
                   Some e \<Rightarrow> Returns (Nil, noAction, noType, noMsgCode, Idle, Some e, sm1)
                 | None \<Rightarrow> Returns (HeaderPtr ret, broadcastMsgAction, headerType, commitMsgCode, Prepared, None, sm1))
             else
               bindO (prepareMsgPlus env sm inputHeader) (\<lambda>(err, sm1).
                 case err of
                   Some e \<Rightarrow> Returns (Nil, noAction, noType, noMsgCode, Idle, Some e, sm1)
                 | None \<Rightarrow> Returns (input, noAction, noType, noMsgCode, Idle, None, sm1)))
      | preprepareMsgCode \<Rightarrow>
           (if verifyBlock env sm inputBlock then
              bindO (composePrepareMsg env sm inputBlock) (\<lambda>(ret, err, sm1).
                case err of
                  Some e \<Rightarrow> Returns (Nil, noAction, noType, noMsgCode, Idle, Some e, sm1)
                | None \<Rightarrow> Returns (HeaderPtr ret, broadcastMsgAction, headerType, prepareMsgCode,
                                   Preprepared, None, sm1))
            else
              (let (b, sm1) = proposeImpeachBlock env sm
               in Returns (BlockPtr b, insertBlockAction, blockType, impeachPrepareMsgCode,
                           ImpeachPreprepared, Some errFsmFaultyBlock, sm1)))
      | impeachValidateMsgCode \<Rightarrow> Returns (BlockPtr inputBlock, insertBlockAction, blockType, noMsgCode, Idle, None, sm)
      | impeachCommitMsgCode \<Rightarrow>
           bindO (impeachCommitCertificate sm inputHeader) (\<lambda>cert.
             if cert then
               bindO (composeImpeachValidateMsg sm inputHeader) (\<lambda>(b, err, sm1).
                 case err of
                   Some e \<Rightarrow> Returns (Nil, noAction, noType, noMsgCode, Idle, Some e, sm1)
                 | None \<Rightarrow> Returns (BlockPtr b, broadcastAndInsertBlockAction, blockType, impeachValidateMsgCode, Idle, None, sm1))
             else
               bindO (impeachCommitMsgPlus env sm inputHeader) (\<lambda>(err, sm1).
                 case err of
                   Some e \<Rightarrow> Returns (Nil, noAction, noType, noMsgCode, Idle, Some e, sm1)
                 | None \<Rightarrow> Returns (HeaderPtr inputHeader, noAction, noType, noMsgCode, Idle, None, sm1)))
      | impeachPrepareMsgCode \<Rightarrow>
           bindO (impeachPrepareCertificate sm inputHeader) (\<lambda>cert.
             if cert then
               Returns (HeaderPtr inputHeader, broadcastMsgAction, headerType, impeachCommitMsgCode, ImpeachPrepared, None, sm)
             else
               bindO (impeachPrepareMsgPlus env sm inputHeader) (\<lambda>(err, sm1).
                 case err of
                   Some e \<Rightarrow> Returns (Nil, noAction, noType, noMsgCode, Idle, Some e, sm1)
                 | None \<Rightarrow> Returns (input, noAction, noType, noMsgCode, Idle, None, sm1)))
      | impeachPreprepareMsgCode \<Rightarrow>
          (let (b, sm1) = proposeImpeachBlock env sm
           in Returns (BlockPtr b, broadcastMsgAction, blockType, impeachPrepareMsgCode,
                       ImpeachPreprepared, None, sm1))
      | noMsgCode \<Rightarrow> Returns (Nil, noAction, noType, noMsgCode, Idle, Some errFsmWrongIdleIpunt, sm))"

definition fsm_Preprepared ::
  "'svc DporService \<Rightarrow> 'svc DporSm \<Rightarrow> iface \<Rightarrow> header option \<Rightarrow> block option \<Rightarrow> msgCode
    \<Rightarrow> 'svc fsmResult outcome" where
  "fsm_Preprepared env sm input inputHeader inputBlock msg =
     (case msg of
        validateMsgCode \<Rightarrow> Returns (BlockPtr inputBlock, insertBlockAction, blockType, noMsgCode, Idle, None, sm)
      | commitMsgCode \<Rightarrow>
           bindO (commitCertificate sm inputHeader) (\<lambda>cert.
             if cert then
               bindO (composeValidateMsg sm inputHeader) (\<lambda>(b, err, sm1).
                 case err of
                   Some e \<Rightarrow> Returns (Nil, noAction, noType, noMsgCode, Idle, Some e, sm1)
                 | None \<Rightarrow> Returns (BlockPtr b, broadcastAndInsertBlockAction, blockType, validateMsgCode, Idle, None, sm1))
             else
               bindO (commitMsgPlus env sm inputHeader) (\<lambda>(err, sm1).
                 case err of
                   Some e \<Rightarrow> Returns (Nil, noAction, noType, noMsgCode, Idle, Some e, sm1)
                 | None \<Rightarrow> Returns (input, noAction, noType, noMsgCode, Preprepared, None, sm1)))
      | prepareMsgCode \<Rightarrow>
           bindO (prepareCertificate sm inputHeader) (\<lambda>cert.
             if cert then
               bindO (composeCommitMsg env sm inputHeader) (\<lambda>(ret, err, sm1).
                 case err of
                   Some e \<Rightarrow> Returns (Nil, noAction, noType, noMsgCode, Preprepared, Some e, sm1)
                 | None \<Rightarrow> Returns (HeaderPtr ret, broadcastMsgAction, headerType, commitMsgCode, Prepared, None, sm1))
             else
               bindO (prepareMsgPlus env sm inputHeader) (\<lambda>(err, sm1).
                 case err of
                   Some e \<Rightarrow> Returns (Nil, noAction, noType, noMsgCode, Preprepared, Some e, sm1)
                 | None \<Rightarrow> Returns (input, noAction, noType, noMsgCode, Preprepared, None, sm1)))
      | impeachValidateMsgCode \<Rightarrow> Returns (BlockPtr inputBlock, insertBlockAction, blockType, noMsgCode, Idle, None, sm)
      | impeachCommitMsgCode \<Rightarrow>
           bindO (impeachCommitCertificate sm inputHeader) (\<lambda>cert.
             if cert then
               bindO (composeImpeachValidateMsg sm inputHeader) (\<lambda>(b, err, sm1).
                 case err of
                   Some e \<Rightarrow> Returns (Nil, noAction, noType, noMsgCode, Preprepared, Some e, sm1)
                 | None \<Rightarrow> Returns (BlockPtr b, broadcastAndInsertBlockAction, blockType, impeachValidateMsgCode, Idle, None, sm1))
             else
               bindO (commitMsgPlus env sm inputHeader) (\<lambda>(err, sm1).
                 case err of
                   Some e \<Rightarrow> Returns (Nil, noAction, noType, noMsgCode, Preprepared, Some e, sm1)
                 | None \<Rightarrow> Returns (input, noAction, noType, noMsgCode, Idle, None, sm1)))
      | impeachPrepareMsgCode \<Rightarrow>
           bindO (impeachPrepareCertificate sm inputHeader) (\<lambda>cert.
             if cert then
               Returns (HeaderPtr inputHeader, broadcastMsgAction, headerType, impeachCommitMsgCode, ImpeachPrepared, None, sm)
             else
               bindO (impeachPrepareMsgPlus env sm inputHeader) (\<lambda>(err, sm1).
                 case err of
                   Some e \<Rightarrow> Returns (Nil, noAction, noType, noMsgCode, Preprepared, Some e, sm1)
                 | None \<Rightarrow> Returns (input, noAction, noType, noMsgCode, Preprepared, None, sm1)))
      | impeachPreprepareMsgCode \<Rightarrow>
          (let (b, sm1) = proposeImpeachBlock env sm
           in Returns (BlockPtr b, broadcastMsgAction, blockType, impeachPrepareMsgCode,
                       ImpeachPreprepared, None, sm1))
      | _ \<Rightarrow> Returns (Nil, noAction, noType, noMsgCode, Preprepared, Some errFsmWrongPrepreparedInput, sm))"

definition fsm_Prepared ::
  "'svc DporService \<Rightarrow> 'svc DporSm \<Rightarrow> iface \<Rightarrow> header option \<Rightarrow> block option \<Rightarrow> msgCode
    \<Rightarrow> 'svc fsmResult outcome" where
  "fsm_Prepared env sm input inputHeader inputBlock msg =
     (case msg of
        validateMsgCode \<Rightarrow> Returns (BlockPtr inputBlock, insertBlockAction, blockType, noMsgCode, Idle, None, sm)
      | commitMsgCode \<Rightarrow>
           bindO (commitCertificate sm inputHeader) (\<lambda>cert.
             if cert then
               bindO (composeValidateMsg sm inputHeader) (\<lambda>(b, err, sm1).
                 case err of
                   Some e \<Rightarrow> Returns (Nil, noAction, noType, noMsgCode, Prepared, Some e, sm1)
                 | None \<Rightarrow> Returns (BlockPtr b, broadcastAndInsertBlockAction, blockType, validateMsgCode, Idle, None, sm1))
             else
               bindO (commitMsgPlus env sm inputHeader) (\<lambda>(err, sm1).
                 case err of
                   Some e \<Rightarrow> Returns (Nil, noAction, noType, noMsgCode, Prepared, Some e, sm1)
                 | None \<Rightarrow> Returns (input, noAction, noType, noMsgCode, Preprepared, None, sm1)))
      | impeachValidateMsgCode \<Rightarrow> Returns (BlockPtr inputBlock, insertBlockAction, blockType, noMsgCode, Idle, None, sm)
      | impeachCommitMsgCode \<Rightarrow>
           bindO (impeachCommitCertificate sm inputHeader) (\<lambda>cert.
             if cert then
               bindO (composeImpeachValidateMsg sm inputHeader) (\<lambda>(b, err, sm1).
                 case err of
                   Some e \<Rightarrow> Returns (Nil, noAction, noType, noMsgCode, Prepared, Some e, sm1)
                 | None \<Rightarrow> Returns (BlockPtr b, broadcastAndInsertBlockAction, blockType, impeachValidateMsgCode, Idle, None, sm1))
             else
               bindO (impeachCommitMsgPlus env sm inputHeader) (\<lambda>(err, sm1).
                 case err of
                   Some e \<Rightarrow> Returns (Nil, noAction, noType, noMsgCode, Prepared, Some e, sm1)
                 | None \<Rightarrow> Returns (input, noAction, noType, noMsgCode, Prepared, None, sm1)))
      | impeachPrepareMsgCode \<Rightarrow>
           bindO (impeachPrepareCertificate sm inputHeader) (\<lambda>cert.
             if cert then
               Returns (HeaderPtr inputHeader, broadcastMsgAction, headerType, impeachCommitMsgCode, ImpeachPrepared, None, sm)
             else
               bindO (impeachPrepareMsgPlus env sm inputHeader) (\<lambda>(err, sm1).
                 case err of
                   Some e \<Rightarrow> Returns (Nil, noAction, noType, noMsgCode, Prepared, Some e, sm1)
                 | None \<Rightarrow> Returns (input, noAction, noType, noMsgCode, Prepared, None, sm1)))
      | impeachPreprepareMsgCode \<Rightarrow>
          (let (b, sm1) = proposeImpeachBlock env sm
           in Returns (BlockPtr b, broadcastMsgAction, blockType, impeachPrepareMsgCode,
                       ImpeachPreprepared, None, sm1))
      | _ \<Rightarrow> Returns (Nil, noAction, noType, noMsgCode, Prepared, Some errFsmWrongPreparedInput, sm))"

definition fsm_ImpeachPreprepared ::
  "'svc DporService \<Rightarrow> 'svc DporSm \<Rightarrow> iface \<Rightarrow> header option \<Rightarrow> block option \<Rightarrow> msgCode
    \<Rightarrow> 'svc fsmResult outcome" where
  "fsm_ImpeachPreprepared env sm input inputHeader inputBlock msg =
     (case msg of
        impeachValidateMsgCode \<Rightarrow> Returns (BlockPtr inputBlock, insertBlockAction, blockType, noMsgCode, Idle, None, sm)
      | impeachCommitMsgCode \<Rightarrow>
           bindO (impeachCommitCertificate sm inputHeader) (\<lambda>cert.
             if cert then
               bindO (composeImpeachValidateMsg sm inputHeader) (\<lambda>(b, err, sm1).
                 case err of
                   Some e \<Rightarrow> Returns (Nil, noAction, noType, noMsgCode, ImpeachPreprepared, Some e, sm1)
                 | None \<Rightarrow> Returns (BlockPtr b, broadcastAndInsertBlockAction, blockType, impeachValidateMsgCode, Idle, None, sm1))
             else
               bindO (impeachCommitMsgPlus env sm inputHeader) (\<lambda>(err, sm1).
                 case err of
                   Some e \<Rightarrow> Returns (Nil, noAction, noType, noMsgCode, ImpeachPreprepared, Some e, sm1)
                 | None \<Rightarrow> Returns (input, noAction, noType, noMsgCode, ImpeachPreprepared, None, sm1)))
      | impeachPrepareMsgCode \<Rightarrow>
           bindO (impeachPrepareCertificate sm inputHeader) (\<lambda>cert.
             if cert then
               Returns (HeaderPtr inputHeader, broadcastMsgAction, headerType, impeachCommitMsgCode, ImpeachPrepared, None, sm)
             else
               bindO (impeachPrepareMsgPlus env sm inputHeader) (\<lambda>(err, sm1).
                 case err of
                   Some e \<Rightarrow> Returns (Nil, noAction, noType, noMsgCode, ImpeachPreprepared, Some e, sm1)
                 | None \<Rightarrow> Returns (input, noAction, noType, noMsgCode, ImpeachPreprepared, None, sm1)))
      | _ \<Rightarrow> Returns (Nil, noAction, noType, noMsgCode, ImpeachPreprepared, Some errFsmWrongImpeachPrepreparedInput, sm))"

definition fsm_ImpeachPrepared ::
  "'svc DporService \<Rightarrow> 'svc DporSm \<Rightarrow> iface \<Rightarrow> header option \<Rightarrow> block option \<Rightarrow> msgCode
    \<Rightarrow> 'svc fsmResult outcome" where
  "fsm_ImpeachPrepared env sm input inputHeader inputBlock msg =
     (case msg of
        impeachValidateMsgCode \<Rightarrow> Returns (BlockPtr inputBlock, insertBlockAction, blockType, noMsgCode, Idle, None, sm)
      | impeachCommitMsgCode \<Rightarrow>
           bindO (impeachCommitCertificate sm inputHeader) (\<lambda>cert.
             if cert then
               bindO (composeImpeachValidateMsg sm inputHeader) (\<lambda>(b, err, sm1).
                 case err of
                   Some e \<Rightarrow> Returns (Nil, noAction, noType, noMsgCode, ImpeachPrepared, Some e, sm1)
                 | None \<Rightarrow> Returns (BlockPtr b, broadcastAndInsertBlockAction, blockType, impeachValidateMsgCode, Idle, None, sm1))
             else
               bindO (impeachCommitMsgPlus env sm inputHeader) (\<lambda>(err, sm1).
                 case err of
                   Some e \<Rightarrow> Returns (Nil, noAction, noType, noMsgCode, ImpeachPrepared, Some e, sm1)
                 | None \<Rightarrow> Returns (input, noAction, noType, noMsgCode, ImpeachPrepared, None, sm1)))
      | _ \<Rightarrow> Returns (Nil, noAction, noType, noMsgCode, ImpeachPrepared, Some errFsmWrongPreparedInput, sm))"

definition fsm_switch ::
  "'svc DporService \<Rightarrow> 'svc DporSm \<Rightarrow> iface \<Rightarrow> header option \<Rightarrow> block option \<Rightarrow> msgCode
    \<Rightarrow> State \<Rightarrow> 'svc fsmResult outcome" where
  "fsm_switch env sm input inputHeader inputBlock msg st =
     (case st of
        Idle \<Rightarrow> fsm_Idle env sm input inputHeader inputBlock msg
      | Preprepared \<Rightarrow> fsm_Preprepared env sm input inputHeader inputBlock msg
      | Prepared \<Rightarrow> fsm_Prepared env sm input inputHeader inputBlock msg
      | ImpeachPreprepared \<Rightarrow> fsm_ImpeachPreprepared env sm input inputHeader inputBlock msg
      | ImpeachPrepared \<Rightarrow> fsm_ImpeachPrepared env sm input inputHeader inputBlock msg)"

definition fsm ::
  "'svc DporService \<Rightarrow> 'svc DporSm \<Rightarrow> iface \<Rightarrow> dataType \<Rightarrow> msgCode \<Rightarrow> State
    \<Rightarrow> 'svc fsmResult outcome" where
  "fsm env sm input inputType msg st =
     (case inputType of
        headerType \<Rightarrow>
          bindO (assertHeader input) (\<lambda>inputHeader. fsm_switch env sm input inputHeader None msg st)
      | blockType \<Rightarrow>
          bindO (assertBlock input) (\<lambda>inputBlock. fsm_switch env sm input None inputBlock msg st)
      | impeachBlockType \<Rightarrow>
          bindO (assertBlock input) (\<lambda>inputBlock. fsm_switch env sm input None inputBlock msg st)
      | noType \<Rightarrow>
          Returns (Nil, noAction, noType, noMsgCode, Idle, Some errFsmWrongDataType, sm))"




section \<open>The election (consensus/dpor/election/elect.go)\<close>

text \<open>
  \<open>rpt.Rpt\<close> is an address with an \<open>int64\<close> score and \<open>rpt.RptList\<close> a slice of them.
  The order \<open>sort.Sort\<close> gives an \<open>RptList\<close> is declared with that type, outside the files at
  hand, and \<open>math/rand\<close> is the standard library: the sort, the seeding of the generator
  and \<open>Int63n\<close> are parameters, \<open>'r\<close> being the state of the generator. Go's \<open>int\<close> is
  modelled as \<open>int\<close>.
\<close>

type_synonym int64 = "64 word"

record rpt =
  Address :: address
  Rpt :: int64

record 'r electionEnv =
  Sort :: "rpt list \<Rightarrow> rpt list"
  NewSource :: "int64 \<Rightarrow> 'r"
  Int63n :: "'r \<Rightarrow> int64 \<Rightarrow> int64 \<times> 'r"

fun sumOfFirstN_loop :: "rpt list \<Rightarrow> int64 list \<Rightarrow> int64 \<Rightarrow> int64 list \<times> int64" where
  "sumOfFirstN_loop [] sums sumRpt = (sums, sumRpt)"
| "sumOfFirstN_loop (r # rs) sums sumRpt = sumOfFirstN_loop rs (sums @ [sumRpt + Rpt r]) (sumRpt + Rpt r)"

definition sumOfFirstN :: "rpt list \<Rightarrow> int64 list \<times> int64" where
  "sumOfFirstN rpts = sumOfFirstN_loop rpts [] 0"

fun findHit_loop :: "int64 \<Rightarrow> int64 list \<Rightarrow> nat \<Rightarrow> nat option" where
  "findHit_loop hit [] idx = None"
| "findHit_loop hit (x # xs) idx =
     (if sint hit \<le> sint x then Some idx else findHit_loop hit xs (Suc idx))"

definition findHit :: "int64 \<Rightarrow> int64 list \<Rightarrow> int" where
  "findHit hit hitSums =
     (case findHit_loop hit hitSums 0 of
        Some idx \<Rightarrow> int idx
      | None \<Rightarrow> int (length hitSums) - 1)"

text \<open>
  The loop \<open>for seats > 0\<close> of \<open>randomSelectByRpt\<close> draws again when the index is already
  selected, so nothing bounds the number of its rounds. The first argument is the number
  of rounds the loop may still run; \<open>None\<close> says that they did not suffice. \<open>Int63n\<close>
  panics on an argument that is not positive.
\<close>

fun randomSelectByRpt_loop ::
  "nat \<Rightarrow> 'r electionEnv \<Rightarrow> rpt list \<Rightarrow> int64 list \<Rightarrow> int64 \<Rightarrow> int list \<Rightarrow> address list \<Rightarrow> 'r \<Rightarrow> int
    \<Rightarrow> (address list \<times> 'r) outcome option" where
  "randomSelectByRpt_loop 0 env rpts sums sumRpt selected result myRand seats = None"
| "randomSelectByRpt_loop (Suc n) env rpts sums sumRpt selected result myRand seats =
     (if seats > 0 then
        (if sint sumRpt \<le> 0 then Some (Panics InvalidArgument)
         else
           (let drawn = Int63n env myRand sumRpt;
                resultIdx = findHit (fst drawn) sums
            in if resultIdx \<in> set selected
               then randomSelectByRpt_loop n env rpts sums sumRpt selected result (snd drawn) seats
               else if resultIdx < 0 \<or> resultIdx \<ge> int (length rpts)
               then Some (Panics IndexOutOfRange)
               else randomSelectByRpt_loop n env rpts sums sumRpt (resultIdx # selected)
                      (result @ [Address (rpts ! nat resultIdx)]) (snd drawn) (seats - 1)))
      else Some (Returns (result, myRand)))"

definition randomSelectByRpt ::
  "nat \<Rightarrow> 'r electionEnv \<Rightarrow> rpt list \<Rightarrow> 'r \<Rightarrow> int \<Rightarrow> (address list \<times> 'r) outcome option" where
  "randomSelectByRpt fuel env rpts myRand seats =
     (let sortedRpts = Sort env rpts;
          ss = sumOfFirstN sortedRpts
      in randomSelectByRpt_loop fuel env sortedRpts (fst ss) (snd ss) [] [] myRand seats)"

definition Elect2 ::
  "nat \<Rightarrow> 'r electionEnv \<Rightarrow> rpt list \<Rightarrow> int64 \<Rightarrow> int \<Rightarrow> int \<Rightarrow> int \<Rightarrow> address list outcome option" where
  "Elect2 fuel env rpts seed totalSeats lowRptCount lowRptSeats =
     (if lowRptCount > int (length rpts) \<or> lowRptSeats > totalSeats
         \<or> totalSeats > int (length rpts) \<or> lowRptCount < lowRptSeats
      then Some (Returns [])
      else
        (let sortedRpts = Sort env rpts in
         if lowRptCount < 0 then Some (Panics IndexOutOfRange)
         else
           (let lowRpts = take (nat lowRptCount) sortedRpts;
                highRpts = drop (nat lowRptCount) sortedRpts;
                myRand = NewSource env seed
            in case randomSelectByRpt fuel env lowRpts myRand lowRptSeats of
                 None \<Rightarrow> None
               | Some (Panics p) \<Rightarrow> Some (Panics p)
               | Some (Returns (lowElected, myRand1)) \<Rightarrow>
                   (case randomSelectByRpt fuel env highRpts myRand1 (totalSeats - lowRptSeats) of
                      None \<Rightarrow> None
                    | Some (Panics p) \<Rightarrow> Some (Panics p)
                    | Some (Returns (highElected, myRand2)) \<Rightarrow>
                        Some (Returns (lowElected @ highElected))))))"

section \<open>Funding (admission/admission.go)\<close>

text \<open>
  \<open>FundForRNode\<close> holds the controller's mutex from its first statement to its return, so
  calls are serialized; the model is the body of one call. What the contract backend
  answers during a call is a parameter of that call, and the product of the two
  constants of package \<open>configs\<close> is formed from them as the code does. The transactions
  handed to \<open>JoinRnode\<close> without error are recorded in \<open>submitted\<close>, and the watchers
  started with \<open>go ac.waitForTxDone\<close> in \<open>watching\<close>.
\<close>

datatype acError =
    errTermOutOfRange | errNotRNode | errLockedPeriod | errNoEnoughMoney | BackendError nat

record backend =
  NewRnodeErr :: "acError option"
  IsRnode :: "acError + bool"
  BalanceAt :: "int option"
  JoinRnode :: "nat \<Rightarrow> int \<Rightarrow> acError + hash"
  RNodeMinFundReq :: int
  Cpc :: int

record AdmissionControl =
  key :: "nat option"
  sendingFund :: "32 word"
  submitted :: "hash list"
  watching :: "hash list"

definition FundForRNode ::
  "backend \<Rightarrow> AdmissionControl \<Rightarrow> (acError option \<times> AdmissionControl) outcome" where
  "FundForRNode be ac =
     (if sendingFund ac \<noteq> 0 then Returns (None, ac)
      else
        (case NewRnodeErr be of
           Some err \<Rightarrow> Returns (Some err, ac)
         | None \<Rightarrow>
             (case IsRnode be of
                Inl err \<Rightarrow> Returns (Some err, ac)
              | Inr isRNode \<Rightarrow>
                  if isRNode then Returns (None, ac)
                  else
                    (let minRnodeFund = RNodeMinFundReq be * Cpc be in
                     case BalanceAt be of
                       None \<Rightarrow> Panics NilDereference
                     | Some balance \<Rightarrow>
                         if balance \<ge> minRnodeFund then
                           (case key ac of
                              None \<Rightarrow> Panics NilDereference
                            | Some k \<Rightarrow>
                                (case JoinRnode be k minRnodeFund of
                                   Inl err \<Rightarrow> Returns (Some err, ac)
                                 | Inr tx \<Rightarrow>
                                     Returns (None,
                                       ac\<lparr>sendingFund := 1,
                                          submitted := submitted ac @ [tx],
                                          watching := watching ac @ [tx]\<rparr>)))
                         else Returns (Some errNoEnoughMoney, ac)))))"

text \<open>A run of calls, one after the other, each with the answers the backend gives it.\<close>

fun FundForRNode_calls ::
  "backend list \<Rightarrow> AdmissionControl \<Rightarrow> (acError option list \<times> AdmissionControl) outcome" where
  "FundForRNode_calls [] ac = Returns ([], ac)"
| "FundForRNode_calls (be # bes) ac =
     bindO (FundForRNode be ac) (\<lambda>(r, ac1).
       bindO (FundForRNode_calls bes ac1) (\<lambda>(rs, ac2). Returns (r # rs, ac2)))"

section \<open>A simulated service and concrete inputs\<close>

text \<open>An in-memory service for concrete runs: the committee is four validators, the
  signers of a header are the validators whose slot is filled, signing leaves the header
  alone, a block with payload 0 is rejected, and the cache keeps the ten newest blocks.\<close>

definition filledSlots :: "header \<Rightarrow> (address \<times> dporSignature) list" where
  "filledSlots h = filter (\<lambda>vs. \<not> IsEmpty (snd vs)) (zip (Validators h) (Sigs h))"

definition impeachBlock :: block where
  "impeachBlock = \<lparr>Header = \<lparr>Number = 100, Hash = 999, Validators = [1, 2, 3, 4],
                               Sigs = [[0], [0], [0], [0]]\<rparr>, Payload = 1\<rparr>"

definition simService :: "unit DporService" where
  "simService =
     \<lparr>ValidateBlock = (\<lambda>svc b. case b of None \<Rightarrow> Some (ServiceError 0)
                          | Some blk \<Rightarrow> if Payload blk = 0 then Some (ServiceError 1) else None),
      EcrecoverSigs = (\<lambda>svc h st. Inr (map fst (filledSlots h), map snd (filledSlots h))),
      ValidatorsOf = (\<lambda>svc n. [1, 2, 3, 4]),
      SignHeader = (\<lambda>svc h st. (h, svc)),
      UpdatePrepareSigsCache = (\<lambda>a hs sg svc. svc),
      UpdateFinalSigsCache = (\<lambda>a hs sg svc. svc),
      CreateImpeachBlock = (\<lambda>svc. Inr impeachBlock),
      bcacheAdd = (\<lambda>k b c. take 10 ((k, b) # AList.delete k c))\<rparr>"

text \<open>Two headers, of heights 100 and 101; three of the four validators signed the first,
  one the second.\<close>

definition header100 :: header where
  "header100 = \<lparr>Number = 100, Hash = 7100, Validators = [1, 2, 3, 4],
                Sigs = [[1], [2], [3], [0]]\<rparr>"

definition header101 :: header where
  "header101 = \<lparr>Number = 101, Hash = 7101, Validators = [1, 2, 3, 4],
                Sigs = [[5], [0], [0], [0]]\<rparr>"

definition block100 :: block where
  "block100 = \<lparr>Header = header100, Payload = 1\<rparr>"

definition faultyBlock :: block where
  "faultyBlock = \<lparr>Header = header100, Payload = 0\<rparr>"


definition cached100 :: "unit DporSm" where
  "cached100 = (NewDporSm () 1)\<lparr>bcache := [(7100, block100)], lastHeight := 100\<rparr>"

definition block101 :: block where
  "block101 = \<lparr>Header = header101, Payload = 1\<rparr>"



text \<open>A generator that always draws 0, a sort by score, and two candidates of score 1.\<close>

definition simElection :: "unit electionEnv" where
  "simElection =
     \<lparr>Sort = sort_key (\<lambda>r. sint (Rpt r)),
      NewSource = (\<lambda>seed. ()),
      Int63n = (\<lambda>r n. (0, r))\<rparr>"

definition twoOnes :: "rpt list" where
  "twoOnes = [\<lparr>Address = 10, Rpt = 1\<rparr>, \<lparr>Address = 11, Rpt = 1\<rparr>]"

text \<open>A backend on which the node is not yet an RNode and owns the required fund.\<close>

definition simBackend :: backend where
  "simBackend =
     \<lparr>NewRnodeErr = None, IsRnode = Inr False, BalanceAt = Some 500,
      JoinRnode = (\<lambda>k v. Inr 77), RNodeMinFundReq = 200, Cpc = 2\<rparr>"

definition freshControl :: AdmissionControl where
  "freshControl = \<lparr>key = Some 1, sendingFund = 0, submitted = [], watching = []\<rparr>"

section \<open>A property of machines\<close>


section \<open>Properties of the state machine\<close>

lemmas fsm_unfold = fsm_def fsm_switch_def assertHeader_def assertBlock_def bindO_def

lemmas sim_defs = simService_def NewDporSm_def header100_def header101_def block100_def
  block101_def faultyBlock_def impeachBlock_def filledSlots_def IsEmpty_def isValidator_def

subsection \<open>The mutex and the signature maps\<close>



lemma refresh_held: "refreshWhenNewerHeight WriteLocked height sm = Blocks"
  by (simp add: refreshWhenNewerHeight_def Lock_def bindO_def)

lemma commitMsgPlus_blocks:
  "commitMsgPlus env sm h = (case h of None \<Rightarrow> Panics NilDereference | Some hdr \<Rightarrow> Blocks)"
  by (simp add: commitMsgPlus_def Lock_def bindO_def refresh_held split: option.splits)

















subsection \<open>Transitions\<close>

text \<open>
  C2, as the code has it. For a block input with message code validate, the machine in
  state Idle, Preprepared or Prepared accepts the message, emits the insert action for
  the block and goes to Idle, leaving the machine's data alone. In the two impeach states
  the message has no case: the call returns the error of the \<open>default\<close> branch with no
  action, and the state stays.
\<close>

theorem fsm_validate_by_state:
  assumes "inputType = blockType \<or> inputType = impeachBlockType"
  shows "((st = Idle \<or> st = Preprepared \<or> st = Prepared) \<longrightarrow>
            fsm env sm (BlockPtr b) inputType validateMsgCode st
              = Returns (BlockPtr b, insertBlockAction, blockType, noMsgCode, Idle, None, sm))
       \<and> (st = ImpeachPreprepared \<longrightarrow>
            fsm env sm (BlockPtr b) inputType validateMsgCode st
              = Returns (Nil, noAction, noType, noMsgCode, ImpeachPreprepared,
                         Some errFsmWrongImpeachPrepreparedInput, sm))
       \<and> (st = ImpeachPrepared \<longrightarrow>
            fsm env sm (BlockPtr b) inputType validateMsgCode st
              = Returns (Nil, noAction, noType, noMsgCode, ImpeachPrepared,
                         Some errFsmWrongPreparedInput, sm))"
  using assms
  by (auto simp: fsm_unfold fsm_Idle_def fsm_Preprepared_def fsm_Prepared_def
        fsm_ImpeachPreprepared_def fsm_ImpeachPrepared_def)

theorem fsm_validate_by_state_witness:
  "fsm simService (NewDporSm () 1) (BlockPtr (Some block100)) blockType validateMsgCode Prepared
     = Returns (BlockPtr (Some block100), insertBlockAction, blockType, noMsgCode, Idle, None,
                NewDporSm () 1)
   \<and> fsm simService (NewDporSm () 1) (BlockPtr (Some block100)) blockType validateMsgCode
       ImpeachPrepared
     = Returns (Nil, noAction, noType, noMsgCode, ImpeachPrepared,
                Some errFsmWrongPreparedInput, NewDporSm () 1)"
  using fsm_validate_by_state [of blockType Prepared simService "NewDporSm () 1" "Some block100"]
    fsm_validate_by_state [of blockType ImpeachPrepared simService "NewDporSm () 1" "Some block100"]
  by simp

text \<open>C2, as the claim states it, fails in state ImpeachPreprepared: the validate message is
  answered with an input error and the state is kept.\<close>

theorem fsm_validate_ImpeachPreprepared_rejected:
  "fsm simService (NewDporSm () 1) (BlockPtr (Some block100)) blockType validateMsgCode
       ImpeachPreprepared
     = Returns (Nil, noAction, noType, noMsgCode, ImpeachPreprepared,
                Some errFsmWrongImpeachPrepreparedInput, NewDporSm () 1)"
  by (simp add: fsm_unfold fsm_ImpeachPreprepared_def)

text \<open>
  C3 says that a commit message in state Prepared, without a commit certificate, runs the
  commit sig-plus and stays in Prepared. In the code the call of \<open>commitMsgPlus\<close> never
  returns, so \<open>fsm\<close> returns nothing: no output and no next state.
\<close>

theorem fsm_Prepared_commit_blocks:
  assumes "commitCertificate sm (Some h) = Returns False"
  shows "fsm env sm (HeaderPtr (Some h)) headerType commitMsgCode Prepared = Blocks"
  using assms by (simp add: fsm_unfold fsm_Prepared_def commitMsgPlus_blocks)

theorem fsm_Prepared_commit_blocks_witness:
  "commitCertificate (NewDporSm () 1) (Some header100) = Returns False
   \<and> fsm simService (NewDporSm () 1) (HeaderPtr (Some header100)) headerType commitMsgCode
        Prepared = Blocks"
proof -
  have c: "commitCertificate (NewDporSm () 1) (Some header100) = Returns False"
    by (simp add: commitCertificate_def countHash_def NewDporSm_def)
  show ?thesis using c fsm_Prepared_commit_blocks [OF c] by simp
qed

text \<open>
  C4 says that an impeach commit message in state Preprepared, without an impeach commit
  certificate, runs the impeach commit sig-plus and stays in Preprepared. In the code the
  call of \<open>commitMsgPlus\<close> never returns, so \<open>fsm\<close> returns nothing: no output and no next
  state.
\<close>

theorem fsm_Preprepared_impeachCommit_blocks:
  assumes "impeachCommitCertificate sm (Some h) = Returns False"
  shows "fsm env sm (HeaderPtr (Some h)) headerType impeachCommitMsgCode Preprepared = Blocks"
  using assms by (simp add: fsm_unfold fsm_Preprepared_def commitMsgPlus_blocks)

theorem fsm_Preprepared_impeachCommit_blocks_witness:
  "impeachCommitCertificate (NewDporSm () 1) (Some header100) = Returns False
   \<and> fsm simService (NewDporSm () 1) (HeaderPtr (Some header100)) headerType
        impeachCommitMsgCode Preprepared = Blocks"
proof -
  have c: "impeachCommitCertificate (NewDporSm () 1) (Some header100) = Returns False"
    by (simp add: impeachCommitCertificate_def commitCertificate_def countHash_def
          NewDporSm_def)
  show ?thesis using c fsm_Preprepared_impeachCommit_blocks [OF c] by simp
qed

text \<open>
  C5 says that on a prePrepare block that fails verification in state Idle the action
  both inserts the impeach block and broadcasts impeachPrepare. The code proposes the
  impeach block and returns it (the nil block when the service cannot create one) with
  the message code impeachPrepare, the next state ImpeachPreprepared and the error
  FaultyBlock, but the action it returns is the insert action alone.
\<close>

theorem fsm_Idle_preprepare_faulty:
  assumes "\<not> verifyBlock env sm b"
    and "inputType = blockType \<or> inputType = impeachBlockType"
  shows "fsm env sm (BlockPtr b) inputType preprepareMsgCode Idle
           = Returns (BlockPtr (fst (proposeImpeachBlock env sm)), insertBlockAction, blockType,
                      impeachPrepareMsgCode, ImpeachPreprepared, Some errFsmFaultyBlock,
                      snd (proposeImpeachBlock env sm))"
  using assms by (auto simp: fsm_unfold fsm_Idle_def split: prod.splits)

theorem fsm_Idle_preprepare_faulty_witness:
  "\<not> verifyBlock simService (NewDporSm () 1) (Some faultyBlock)
   \<and> proposeImpeachBlock simService (NewDporSm () 1) = (Some impeachBlock, NewDporSm () 1)
   \<and> fsm simService (NewDporSm () 1) (BlockPtr (Some faultyBlock)) blockType preprepareMsgCode
        Idle
       = Returns (BlockPtr (Some impeachBlock), insertBlockAction, blockType,
                  impeachPrepareMsgCode, ImpeachPreprepared, Some errFsmFaultyBlock,
                  NewDporSm () 1)"
proof -
  have v: "\<not> verifyBlock simService (NewDporSm () 1) (Some faultyBlock)"
    by (simp add: verifyBlock_def sim_defs)
  have p: "proposeImpeachBlock simService (NewDporSm () 1)
             = (Some impeachBlock, NewDporSm () 1)"
    by (simp add: proposeImpeachBlock_def sim_defs)
  show ?thesis
    using v p fsm_Idle_preprepare_faulty [OF v disjI1 [OF refl]] by simp
qed

subsection \<open>The compose operations\<close>




lemma fillSigs_nil_deref:
  "k < length vs \<Longrightarrow> i + k < length sigs \<Longrightarrow> IsEmpty (sigs ! (i + k))
     \<Longrightarrow> map_of cs (vs ! k) = None \<Longrightarrow> fillSigs hs cs vs i sigs = Panics NilDereference"
proof (induction vs arbitrary: i k sigs)
  case Nil
  then show ?case by simp
next
  case (Cons v vs)
  show ?case
  proof (cases k)
    case 0
    with Cons.prems show ?thesis by simp
  next
    case (Suc k')
    have il: "i < length sigs" using Cons.prems Suc by simp
    have step: "fillSigs hs cs vs (Suc i) sigs2 = Panics NilDereference"
      if "length sigs2 = length sigs" "sigs2 ! (Suc i + k') = sigs ! (i + k)" for sigs2
      using Cons.IH [of k' "Suc i" sigs2] Cons.prems Suc that by simp
    show ?thesis
    proof (cases "IsEmpty (sigs ! i)")
      case True
      show ?thesis
      proof (cases "map_of cs v")
        case None
        with True il show ?thesis by simp
      next
        case (Some item)
        have "fillSigs hs cs vs (Suc i) (if hash item = hs then sigs[i := sig item] else sigs)
                = Panics NilDereference"
          by (rule step) (simp_all add: Suc)
        with True il Some show ?thesis by simp
      qed
    next
      case False
      have "fillSigs hs cs vs (Suc i) sigs = Panics NilDereference"
        by (rule step) (simp_all add: Suc)
      with False il show ?thesis by simp
    qed
  qed
qed

lemma fillSigs_returns:
  "fillSigs hs cs vs i sigs = Returns sigs' \<Longrightarrow> k < length vs
     \<Longrightarrow> i + k < length sigs \<and> (IsEmpty (sigs ! (i + k)) \<longrightarrow> map_of cs (vs ! k) \<noteq> None)"
proof (induction vs arbitrary: i k sigs)
  case Nil
  then show ?case by simp
next
  case (Cons v vs)
  have il: "i < length sigs" using Cons.prems(1) by (auto split: if_splits)
  show ?case
  proof (cases k)
    case 0
    with Cons.prems(1) il show ?thesis by (auto split: if_splits option.splits)
  next
    case (Suc k')
    obtain sigs2 where r: "fillSigs hs cs vs (Suc i) sigs2 = Returns sigs'"
      and l: "length sigs2 = length sigs" and e: "sigs2 ! (Suc i + k') = sigs ! (i + k)"
      using Cons.prems(1) il Suc by (auto split: if_splits option.splits)
    from Cons.IH [OF r, of k'] Cons.prems(2) Suc l e show ?thesis by simp
  qed
qed

text \<open>
  C9. Let the block of header \<open>h\<close> be in the cache. If some slot \<open>i\<close> of the cached block
  is empty and the commit state has no entry for \<open>validators[i]\<close>, then
  \<open>composeValidateMsg\<close> panics with a nil dereference: it returns neither the block nor an
  error. And if it returns, then every validator has a slot, and every validator whose
  slot is empty has an entry in the commit state.
\<close>

theorem composeValidateMsg_nil_dereference:
  assumes "map_of (bcache sm) (Hash h) = Some theBlock"
  shows "(i < length (Validators h) \<and> i < length (Sigs (Header theBlock))
            \<and> IsEmpty (Sigs (Header theBlock) ! i)
            \<and> map_of (commitSigState sm) (Validators h ! i) = None
          \<longrightarrow> composeValidateMsg sm (Some h) = Panics NilDereference)
       \<and> ((\<exists>r. composeValidateMsg sm (Some h) = Returns r)
          \<longrightarrow> (\<forall>k < length (Validators h). k < length (Sigs (Header theBlock))
                 \<and> (IsEmpty (Sigs (Header theBlock) ! k)
                     \<longrightarrow> map_of (commitSigState sm) (Validators h ! k) \<noteq> None)))"
proof -
  let ?run = "fillSigs (Hash h) (commitSigState sm) (Validators h) 0 (Sigs (Header theBlock))"
  have panics: "composeValidateMsg sm (Some h) = Panics NilDereference"
    if "i < length (Validators h)" "i < length (Sigs (Header theBlock))"
       "IsEmpty (Sigs (Header theBlock) ! i)"
       "map_of (commitSigState sm) (Validators h ! i) = None"
  proof -
    have "?run = Panics NilDereference"
      using that fillSigs_nil_deref [of i "Validators h" 0 "Sigs (Header theBlock)"] by simp
    then show ?thesis
      using assms by (simp add: composeValidateMsg_def bindO_def)
  qed
  have returns: "k < length (Sigs (Header theBlock))
        \<and> (IsEmpty (Sigs (Header theBlock) ! k)
            \<longrightarrow> map_of (commitSigState sm) (Validators h ! k) \<noteq> None)"
    if ret: "composeValidateMsg sm (Some h) = Returns r" and kl: "k < length (Validators h)" for r k
  proof -
    obtain sigs' where "?run = Returns sigs'"
      using ret assms
      by (auto simp: composeValidateMsg_def bindO_def split: outcome.splits)
    from fillSigs_returns [OF this kl] show ?thesis by simp
  qed
  show ?thesis using panics returns by blast
qed

theorem composeValidateMsg_nil_dereference_witness:
  "map_of (bcache cached100) (Hash header100) = Some block100
   \<and> composeValidateMsg cached100 (Some header100) = Panics NilDereference
   \<and> composeValidateMsg
        (cached100\<lparr>commitSigState := [(4, \<lparr>hash = 7100, sig = [9]\<rparr>)]\<rparr>) (Some header100)
       = Returns (Some (block100\<lparr>Header := header100\<lparr>Sigs := [[1], [2], [3], [9]]\<rparr>\<rparr>), None,
           cached100\<lparr>commitSigState := [(4, \<lparr>hash = 7100, sig = [9]\<rparr>)],
                     bcache := [(7100, block100\<lparr>Header := header100\<lparr>Sigs := [[1], [2], [3], [9]]\<rparr>\<rparr>)]\<rparr>)"
proof -
  have c: "map_of (bcache cached100) (Hash header100) = Some block100"
    by (simp add: cached100_def sim_defs)
  have p: "composeValidateMsg cached100 (Some header100) = Panics NilDereference"
    using composeValidateMsg_nil_dereference [OF c, of 3]
    by (simp add: cached100_def sim_defs)
  have r: "composeValidateMsg
        (cached100\<lparr>commitSigState := [(4, \<lparr>hash = 7100, sig = [9]\<rparr>)]\<rparr>) (Some header100)
       = Returns (Some (block100\<lparr>Header := header100\<lparr>Sigs := [[1], [2], [3], [9]]\<rparr>\<rparr>), None,
           cached100\<lparr>commitSigState := [(4, \<lparr>hash = 7100, sig = [9]\<rparr>)],
                     bcache := [(7100, block100\<lparr>Header := header100\<lparr>Sigs := [[1], [2], [3], [9]]\<rparr>\<rparr>)]\<rparr>)"
    by (simp add: composeValidateMsg_def cached100_def sim_defs bindO_def Let_def)
  show ?thesis using c p r by simp
qed

subsection \<open>The impeach operations\<close>

text \<open>
  C10. Each impeach operation is its normal counterpart: the five equations hold for
  every machine, service and header. They work on the same two signature maps: the
  impeach prepare certificate counts the entries of the prepare map and the impeach
  commit certificate those of the commit map, the maps the normal operations read and
  write. So the two phases are not disjoint.
\<close>

theorem impeach_operations_are_the_normal_ones:
  "impeachPrepareCertificate sm h = prepareCertificate sm h
   \<and> impeachCommitCertificate sm h = commitCertificate sm h
   \<and> impeachPrepareMsgPlus env sm h = prepareMsgPlus env sm h
   \<and> impeachCommitMsgPlus env sm h = commitMsgPlus env sm h
   \<and> composeImpeachValidateMsg sm h = composeValidateMsg sm h
   \<and> impeachPrepareCertificate sm (Some hdr)
       = Returns (countHash (Hash hdr) (prepareSigState sm) \<ge> 2 * f sm + 1)
   \<and> impeachCommitCertificate sm (Some hdr)
       = Returns (countHash (Hash hdr) (commitSigState sm) \<ge> 2 * f sm + 1)"
  by (simp add: impeachPrepareCertificate_def impeachCommitCertificate_def
       impeachPrepareMsgPlus_def impeachCommitMsgPlus_def composeImpeachValidateMsg_def
       commitCertificate_def prepareCertificate_def)

section \<open>Properties of the election\<close>

lemma findHit_two_ones: "sint hit \<le> 1 \<Longrightarrow> findHit hit [1, 2] = 0"
  by (simp add: findHit_def)

lemma draw_below_two:
  assumes "\<forall>r n. 0 < sint n \<longrightarrow>
             0 \<le> sint (fst (Int63n env r n)) \<and> sint (fst (Int63n env r n)) < sint n"
  shows "findHit (fst (Int63n env r 2)) [1, 2] = 0"
proof -
  have "sint (2 :: int64) = 2" by simp
  with assms [rule_format, of 2 r] have "sint (fst (Int63n env r 2)) \<le> 1" by simp
  then show ?thesis by (rule findHit_two_ones)
qed

lemma loop_stuck:
  assumes "\<forall>r n. 0 < sint n \<longrightarrow>
             0 \<le> sint (fst (Int63n env r n)) \<and> sint (fst (Int63n env r n)) < sint n"
    and "0 < seats"
  shows "randomSelectByRpt_loop n env rpts [1, 2] 2 [0] result r seats = None"
proof (induction n arbitrary: r)
  case 0
  show ?case by simp
next
  case (Suc n)
  show ?case
    using assms(2) draw_below_two [OF assms(1), of r] Suc.IH [of "snd (Int63n env r 2)"]
    by (simp add: Let_def)
qed

lemma loop_two_ones:
  assumes "\<forall>r n. 0 < sint n \<longrightarrow>
             0 \<le> sint (fst (Int63n env r n)) \<and> sint (fst (Int63n env r n)) < sint n"
    and "length rpts = 2"
  shows "randomSelectByRpt_loop n env rpts [1, 2] 2 [] [] r 2 = None"
proof (cases n)
  case 0
  then show ?thesis by simp
next
  case (Suc m)
  show ?thesis
    using assms(2) draw_below_two [OF assms(1), of r]
      loop_stuck [OF assms(1), of 1 m rpts "[Address (rpts ! 0)]" "snd (Int63n env r 2)"]
    by (simp add: Suc Let_def)
qed

lemma sumOfFirstN_two_ones:
  assumes "length ys = 2" and "\<forall>y \<in> set ys. Rpt y = 1"
  shows "sumOfFirstN ys = ([1, 2], 2)"
proof -
  obtain a b where ys: "ys = [a, b]"
    using assms(1) by (auto simp: length_Suc_conv numeral_2_eq_2)
  with assms(2) show ?thesis by (simp add: sumOfFirstN_def)
qed

lemma perm_two_ones:
  assumes "mset ys = mset twoOnes"
  shows "length ys = 2 \<and> (\<forall>y \<in> set ys. Rpt y = 1)"
proof -
  have "length ys = length twoOnes" using assms by (metis size_mset)
  moreover have "set ys = set twoOnes" using assms by (metis set_mset_mset)
  ultimately show ?thesis by (simp add: twoOnes_def)
qed

text \<open>
  C7 says that \<open>Elect2\<close> returns \<open>totalSeats\<close> addresses for every list of positive scores
  within the preconditions. For two candidates of score 1 and two seats, both from the low
  partition, it does not return: the prefix sums are 1 and 2, every draw below 2 hits
  index 0 since \<open>findHit\<close> compares with \<open>\<le>\<close>, and index 1 is never drawn. This holds for
  every seed, every sort that permutes its input and every generator whose \<open>Int63n n\<close>
  lies in \<open>[0, n)\<close>: no number of rounds suffices.
\<close>

theorem Elect2_two_ones_never_returns:
  assumes perm: "\<forall>xs. mset (Sort env xs) = mset xs"
    and rng: "\<forall>r n. 0 < sint n \<longrightarrow>
             0 \<le> sint (fst (Int63n env r n)) \<and> sint (fst (Int63n env r n)) < sint n"
  shows "Elect2 fuel env twoOnes seed 2 2 2 = None"
proof -
  let ?sortedRpts = "Sort env twoOnes"
  have s1: "length ?sortedRpts = 2 \<and> (\<forall>y \<in> set ?sortedRpts. Rpt y = 1)"
    using perm by (intro perm_two_ones) simp
  then have low: "take 2 ?sortedRpts = ?sortedRpts" by simp
  have s2: "length (Sort env ?sortedRpts) = 2 \<and> (\<forall>y \<in> set (Sort env ?sortedRpts). Rpt y = 1)"
    using perm by (intro perm_two_ones) simp
  have "randomSelectByRpt fuel env ?sortedRpts (NewSource env seed) 2 = None"
    using s2 loop_two_ones [OF rng, of "Sort env ?sortedRpts"]
    by (simp add: randomSelectByRpt_def Let_def sumOfFirstN_two_ones)
  then show ?thesis
    using low by (simp add: Elect2_def Let_def twoOnes_def)
qed

theorem Elect2_two_ones_never_returns_witness:
  "Elect2 1000 simElection twoOnes 42 2 2 2 = None"
proof -
  have perm: "\<forall>xs. mset (Sort simElection xs) = mset xs"
    by (simp add: simElection_def)
  have rng: "\<forall>r n. 0 < sint n \<longrightarrow>
             0 \<le> sint (fst (Int63n simElection r n)) \<and> sint (fst (Int63n simElection r n)) < sint n"
    by (simp add: simElection_def)
  from Elect2_two_ones_never_returns [OF perm rng] show ?thesis .
qed

section \<open>Properties of the funding\<close>

lemma FundForRNode_while_sending:
  "sendingFund ac \<noteq> 0 \<Longrightarrow> FundForRNode be ac = Returns (None, ac)"
  by (simp add: FundForRNode_def)

lemma FundForRNode_calls_while_sending:
  "sendingFund ac \<noteq> 0
     \<Longrightarrow> FundForRNode_calls bes ac = Returns (replicate (length bes) None, ac)"
  by (induction bes) (simp_all add: FundForRNode_while_sending bindO_def)

lemma FundForRNode_submission:
  assumes "FundForRNode be ac0 = Returns (r, ac1)" and "submitted ac1 \<noteq> submitted ac0"
  shows "r = None \<and> sendingFund ac0 = 0 \<and> sendingFund ac1 = 1
         \<and> (\<exists>tx. JoinRnode be (the (key ac0)) (RNodeMinFundReq be * Cpc be) = Inr tx
                 \<and> submitted ac1 = submitted ac0 @ [tx])"
  using assms
  by (auto simp: FundForRNode_def Let_def split: option.splits sum.splits if_splits)

text \<open>
  C8. Let a call of \<open>FundForRNode\<close> submit a transaction, that is, let \<open>JoinRnode\<close> accept
  it. Then the flag was clear before the call, the call returns success, exactly that one
  transaction is recorded, and the call has set the flag. As long as the watcher has not
  cleared the flag, all further calls, whatever the backend answers them, return success
  at once and leave the controller as it is: over the whole run of \<open>N\<close> calls exactly one
  transaction is submitted.
\<close>

theorem FundForRNode_idempotent_while_sending:
  assumes "FundForRNode be ac0 = Returns (r, ac1)" and "submitted ac1 \<noteq> submitted ac0"
  shows "sendingFund ac0 = 0 \<and> sendingFund ac1 = 1
       \<and> (\<exists>tx. JoinRnode be (the (key ac0)) (RNodeMinFundReq be * Cpc be) = Inr tx
               \<and> submitted ac1 = submitted ac0 @ [tx])
       \<and> FundForRNode_calls (be # bes) ac0 = Returns (replicate (Suc (length bes)) None, ac1)
       \<and> FundForRNode_calls bes ac1 = Returns (replicate (length bes) None, ac1)"
proof -
  note s = FundForRNode_submission [OF assms]
  then have "sendingFund ac1 \<noteq> 0" by simp
  from FundForRNode_calls_while_sending [OF this, of bes] s assms(1) show ?thesis
    by (simp add: bindO_def)
qed

theorem FundForRNode_idempotent_while_sending_witness:
  "FundForRNode simBackend freshControl
       = Returns (None, freshControl\<lparr>sendingFund := 1, submitted := [77], watching := [77]\<rparr>)
   \<and> FundForRNode_calls [simBackend, simBackend, simBackend] freshControl
       = Returns ([None, None, None],
                  freshControl\<lparr>sendingFund := 1, submitted := [77], watching := [77]\<rparr>)"
proof -
  let ?ac1 = "freshControl\<lparr>sendingFund := 1, submitted := [77], watching := [77]\<rparr>"
  have b: "FundForRNode simBackend freshControl = Returns (None, ?ac1)"
    by (simp add: FundForRNode_def simBackend_def freshControl_def)
  have c: "submitted ?ac1 \<noteq> submitted freshControl" by (simp add: freshControl_def)
  from FundForRNode_idempotent_while_sending [OF b c, of "[simBackend, simBackend]"] b
  show ?thesis by (simp add: numeral_2_eq_2)
qed

end
